theory Spec2Isabelle
  imports Main "HOL-Library.Word"
begin

section \<open>Strings\<close>

text \<open>
  A JavaScript string is a sequence of UTF-16 code units. String literals of the source
  are ASCII and are written through \<open>js\<close>.
\<close>

type_synonym jstring = "16 word list"

definition js :: "string \<Rightarrow> jstring" where
  "js s = map of_char s"

text \<open>
  The code units \<open>String.prototype.trim\<close> strips: the ECMAScript WhiteSpace and
  LineTerminator productions (TAB, LF, VT, FF, CR, SP, NBSP, the category Zs,
  LS, PS and the byte order mark). All of them are single code units.
\<close>

definition isWhiteSpace :: "16 word \<Rightarrow> bool" where
  "isWhiteSpace c \<longleftrightarrow>
     c = 0x0009 \<or> c = 0x000A \<or> c = 0x000B \<or> c = 0x000C \<or> c = 0x000D \<or>
     c = 0x0020 \<or> c = 0x00A0 \<or> c = 0x1680 \<or>
     (0x2000 \<le> c \<and> c \<le> 0x200A) \<or>
     c = 0x2028 \<or> c = 0x2029 \<or> c = 0x202F \<or> c = 0x205F \<or>
     c = 0x3000 \<or> c = 0xFEFF"

definition trim :: "jstring \<Rightarrow> jstring" where
  "trim s = rev (dropWhile isWhiteSpace (rev (dropWhile isWhiteSpace s)))"

text \<open>
  \<open>isWellFormed\<close>: no unpaired surrogate. \<open>encodeURIComponent\<close> throws a \<open>URIError\<close>
  exactly on the strings that are not well formed.
\<close>

definition isHighSurrogate :: "16 word \<Rightarrow> bool" where
  "isHighSurrogate c \<longleftrightarrow> 0xD800 \<le> c \<and> c \<le> 0xDBFF"

definition isLowSurrogate :: "16 word \<Rightarrow> bool" where
  "isLowSurrogate c \<longleftrightarrow> 0xDC00 \<le> c \<and> c \<le> 0xDFFF"

fun isWellFormed :: "jstring \<Rightarrow> bool" where
  "isWellFormed [] = True"
| "isWellFormed [c] = (\<not> isHighSurrogate c \<and> \<not> isLowSurrogate c)"
| "isWellFormed (c # d # cs) =
     (if isHighSurrogate c then isLowSurrogate d \<and> isWellFormed cs
      else \<not> isLowSurrogate c \<and> isWellFormed (d # cs))"

text \<open>JavaScript truthiness of a string: every string but the empty one.\<close>

definition truthy :: "jstring \<Rightarrow> bool" where
  "truthy s \<longleftrightarrow> s \<noteq> []"

section \<open>Data model\<close>

text \<open>The exported types \<open>Customer\<close>, \<open>Customers\<close> and \<open>ApiError\<close>.\<close>

record customer =
  firstName :: jstring
  lastName :: jstring
  businessName :: "jstring option"
  email :: jstring

type_synonym customers = "customer list"

text \<open>
  The value of the \<open>message\<close> property of a decoded body: a string, as \<open>ApiError\<close>
  declares, or a value of another type, of which the page sees only whether it is truthy
  and the text that its conversion to a string gives.
\<close>

datatype jsvalue = JString jstring | JOther bool jstring

text \<open>
  A decoded response body. The handlers read it with \<open>msg?.message\<close>, so it may be
  \<open>null\<close>, and a property of the error object may be absent. A successful list
  carries \<open>Customers\<close>.
\<close>

datatype json =
    JNull
  | JApiError (code: "jstring option") (message: "jsvalue option")
  | JCustomers customers

text \<open>
  What a \<open>throw\<close> can carry here: an \<open>Error\<close> object (only its message is ever read),
  or, in the fetcher, the decoded body itself.
\<close>

datatype thrown = ThrownError jstring | ThrownData json

text \<open>
  The three requests the page sends. For DELETE the second component is the value of
  the \<open>email\<close> query parameter, before \<open>encodeURIComponent\<close>.
\<close>

datatype request =
    GET jstring
  | POST jstring customer
  | DELETE jstring jstring

text \<open>
  A \<open>Response\<close>: its \<open>ok\<close> flag, and what \<open>json()\<close> gives: the decoded body, or a
  rejection with the parser's message.
\<close>

record response =
  ok :: bool
  json :: "jstring + json"

text \<open>\<open>fetch\<close> rejects (network failure, with the error's message) or resolves.\<close>

datatype fetch_result = Rejected jstring | Resolved response

section \<open>Page state\<close>

text \<open>The \<open>useState\<close> variables of the dialog form.\<close>

record dialog =
  open_st :: bool
  firstName_st :: jstring
  lastName_st :: jstring
  businessName_st :: jstring
  email_st :: jstring

text \<open>What \<open>useSWR\<close> exposes for a key.\<close>

record swr =
  data :: "json option"
  error :: "thrown option"
  isLoading :: bool

text \<open>The effects of the page, in program order.\<close>

datatype event =
    EvPreventDefault
  | EvAlert jstring
  | EvConsoleError thrown
  | EvConfirm jstring bool
  | EvRequest request
  | EvResponse fetch_result
  | EvMutate jstring

text \<open>
  The world a handler runs in: the remote store behind \<open>/api/customers\<close> (of any
  type \<open>'s\<close>), the SWR cache, the dialog form and the log of effects.
\<close>

record 's world =
  server :: 's
  cache :: "jstring \<rightharpoonup> swr"
  form :: dialog
  log :: "event list"

text \<open>
  The remote side: from the store's state and a request, the outcome of \<open>fetch\<close> and
  the store's next state. It is a parameter of every operation below.
\<close>

type_synonym 's remote = "'s \<Rightarrow> request \<Rightarrow> fetch_result \<times> 's"

definition customersKey :: jstring where
  "customersKey = js ''/api/customers''"

section \<open>Operations\<close>

definition emit :: "event \<Rightarrow> 's world \<Rightarrow> 's world" where
  "emit ev w = w\<lparr>log := log w @ [ev]\<rparr>"

text \<open>\<open>await fetch(...)\<close>: the request goes out, the store answers, the answer is seen.\<close>

definition fetch :: "'s remote \<Rightarrow> request \<Rightarrow> 's world \<Rightarrow> fetch_result \<times> 's world" where
  "fetch srv req w =
     (let w1 = emit (EvRequest req) w;
          (res, s') = srv (server w1) req
      in (res, emit (EvResponse res) (w1\<lparr>server := s'\<rparr>)))"

text \<open>
  The SWR fetcher:
  \<^verbatim>\<open>const res = await fetch(url); const data = await res.json();
  if (!res.ok) throw data; return data;\<close>
\<close>

definition fetcher :: "'s remote \<Rightarrow> jstring \<Rightarrow> 's world \<Rightarrow> (thrown + json) \<times> 's world" where
  "fetcher srv url w =
     (case fetch srv (GET url) w of
        (Rejected m, w1) \<Rightarrow> (Inl (ThrownError m), w1)
      | (Resolved res, w1) \<Rightarrow>
          (case json res of
             Inl m \<Rightarrow> (Inl (ThrownError m), w1)
           | Inr d \<Rightarrow> if \<not> ok res then (Inl (ThrownData d), w1) else (Inr d, w1)))"

definition entry :: "'s world \<Rightarrow> jstring \<Rightarrow> swr" where
  "entry w key =
     (case cache w key of
        None \<Rightarrow> \<lparr>data = None, error = None, isLoading = False\<rparr>
      | Some e \<Rightarrow> e)"

text \<open>
  Modelled from the spec: the resource cache is the \<open>swr\<close> library, which is not part
  of the sources. Section 4.1: a fetch sets the entry loading, calls the store's read
  operation through the fetcher and on completion stores the returned value, or the
  error; a failed fetch does not touch the value already held.
\<close>

definition revalidate :: "'s remote \<Rightarrow> jstring \<Rightarrow> 's world \<Rightarrow> 's world" where
  "revalidate srv key w =
     (let w0 = w\<lparr>cache := (cache w)(key \<mapsto> (entry w key)\<lparr>isLoading := True\<rparr>)\<rparr>
      in case fetcher srv key w0 of
           (Inr d, w1) \<Rightarrow>
             w1\<lparr>cache := (cache w1)(key \<mapsto> \<lparr>data = Some d, error = None, isLoading = False\<rparr>)\<rparr>
         | (Inl e, w1) \<Rightarrow>
             w1\<lparr>cache := (cache w1)(key \<mapsto> (entry w1 key)\<lparr>error := Some e, isLoading := False\<rparr>)\<rparr>)"


text \<open>
  Modelled from the spec: \<open>mutate(key)\<close> with no data is the spec's \<open>invalidate(key)\<close>:
  the entry is marked stale and fetched again, whatever its status.
\<close>

definition mutate :: "'s remote \<Rightarrow> jstring \<Rightarrow> 's world \<Rightarrow> 's world" where
  "mutate srv key w = revalidate srv key (emit (EvMutate key) w)"

definition alert :: "jstring \<Rightarrow> 's world \<Rightarrow> 's world" where
  "alert m w = emit (EvAlert m) w"

text \<open>\<open>handleClose\<close>: close the dialog and reset the form.\<close>

definition handleClose :: "'s world \<Rightarrow> 's world" where
  "handleClose w =
     w\<lparr>form := \<lparr>open_st = False, firstName_st = [], lastName_st = [],
                 businessName_st = [], email_st = []\<rparr>\<rparr>"

definition handleOpen :: "'s world \<Rightarrow> 's world" where
  "handleOpen w = w\<lparr>form := (form w)\<lparr>open_st := True\<rparr>\<rparr>"

text \<open>
  The text of \<open>new Error(msg?.message || fallback)\<close>: the message when it is truthy,
  converted to a string, and the fallback otherwise.
\<close>

definition message_or :: "json \<Rightarrow> jstring \<Rightarrow> jstring" where
  "message_or msg fallback =
     (case msg of
        JApiError c (Some (JString m)) \<Rightarrow> if truthy m then m else fallback
      | JApiError c (Some (JOther t m)) \<Rightarrow> if t then m else fallback
      | _ \<Rightarrow> fallback)"

text \<open>The \<open>catch\<close> block of both handlers: \<open>console.error(err); alert(err.message)\<close>.\<close>

definition catch :: "jstring \<Rightarrow> 's world \<Rightarrow> 's world" where
  "catch m w = alert m (emit (EvConsoleError (ThrownError m)) w)"

definition validationMessage :: jstring where
  "validationMessage = js ''Please fill out first name, last name, and email.''"

text \<open>The body of the POST: \<open>JSON.stringify({ firstName, lastName, businessName, email })\<close>.\<close>

definition newCustomer :: "dialog \<Rightarrow> customer" where
  "newCustomer f =
     \<lparr>firstName = firstName_st f, lastName = lastName_st f,
      businessName = Some (businessName_st f), email = email_st f\<rparr>"

text \<open>The guard of \<open>handleCreate\<close>, as the source writes it.\<close>

definition missingField :: "dialog \<Rightarrow> bool" where
  "missingField f \<longleftrightarrow>
     \<not> truthy (trim (firstName_st f)) \<or> \<not> truthy (trim (lastName_st f)) \<or>
     \<not> truthy (trim (email_st f))"

text \<open>
  \<open>handleCreate\<close>: the guard, then the \<open>try\<close> block. A rejected \<open>fetch\<close>, a rejected
  \<open>json()\<close> and the \<open>throw new Error(...)\<close> all land in the \<open>catch\<close> block.
\<close>

definition handleCreate :: "'s remote \<Rightarrow> 's world \<Rightarrow> 's world" where
  "handleCreate srv w =
     (let w0 = emit EvPreventDefault w in
      if missingField (form w0) then alert validationMessage w0
      else
        (case fetch srv (POST customersKey (newCustomer (form w0))) w0 of
           (Rejected m, w1) \<Rightarrow> catch m w1
         | (Resolved response, w1) \<Rightarrow>
             if \<not> ok response then
               (case json response of
                  Inl m \<Rightarrow> catch m w1
                | Inr msg \<Rightarrow> catch (message_or msg (js ''Error adding new customer'')) w1)
             else handleClose (mutate srv customersKey w1)))"

definition confirmMessage :: "jstring \<Rightarrow> jstring" where
  "confirmMessage custEmail =
     js ''Are you sure you want to delete customer with email: '' @ custEmail @ js ''?''"

text \<open>
  The message of the \<open>URIError\<close> that \<open>encodeURIComponent\<close> throws (the text is the
  engine's; this is V8's).
\<close>

definition uriErrorMessage :: jstring where
  "uriErrorMessage = js ''URI malformed''"

text \<open>
  \<open>handleDelete\<close>; \<open>confirmed\<close> is the user's answer to \<open>window.confirm\<close>. The URL is
  built inside the \<open>try\<close> block, before \<open>fetch\<close> is called: when
  \<open>encodeURIComponent(custEmail)\<close> throws, nothing is sent and the \<open>catch\<close> block runs.
\<close>

definition handleDelete :: "'s remote \<Rightarrow> bool \<Rightarrow> jstring \<Rightarrow> 's world \<Rightarrow> 's world" where
  "handleDelete srv confirmed custEmail w =
     (let w0 = emit (EvConfirm (confirmMessage custEmail) confirmed) w in
      if \<not> confirmed then w0
      else if \<not> isWellFormed custEmail then catch uriErrorMessage w0
      else
        (case fetch srv (DELETE customersKey custEmail) w0 of
           (Rejected m, w1) \<Rightarrow> catch m w1
         | (Resolved response, w1) \<Rightarrow>
             if \<not> ok response then
               (case json response of
                  Inl m \<Rightarrow> catch m w1
                | Inr msg \<Rightarrow> catch (message_or msg (js ''Error deleting customer'')) w1)
             else mutate srv customersKey w1))"




section \<open>Observations on a run\<close>

text \<open>The events a call has added to the log.\<close>

definition issued :: "'s world \<Rightarrow> 's world \<Rightarrow> event list" where
  "issued w w' = drop (length (log w)) (log w')"

text \<open>What a call shows its caller: the alerts and the console errors.\<close>

fun isSurfaced :: "event \<Rightarrow> bool" where
  "isSurfaced (EvAlert m) = True"
| "isSurfaced (EvConsoleError e) = True"
| "isSurfaced ev = False"

definition surfaced :: "event list \<Rightarrow> event list" where
  "surfaced evs = filter isSurfaced evs"

text \<open>The message the \<open>catch\<close> block of a handler shows for a remote call that did not
  succeed; the fallback is the handler's own text.\<close>

fun failureText :: "jstring \<Rightarrow> fetch_result \<Rightarrow> jstring" where
  "failureText fallback (Rejected m) = m"
| "failureText fallback (Resolved res) =
     (case json res of Inl m \<Rightarrow> m | Inr msg \<Rightarrow> message_or msg fallback)"

text \<open>A remote call succeeded when \<open>fetch\<close> resolved with \<open>ok\<close>.\<close>

fun succeeded :: "fetch_result \<Rightarrow> bool" where
  "succeeded (Rejected m) = False"
| "succeeded (Resolved res) = ok res"

fun isMutation :: "request \<Rightarrow> bool" where
  "isMutation (GET url) = False"
| "isMutation (POST url c) = True"
| "isMutation (DELETE url e) = True"

text \<open>
  The ordering contract, read off a log. A remote write is \<open>InFlight\<close> from its request
  to its response and \<open>Committed\<close> once a successful response has been seen; an
  invalidation is allowed only then.
\<close>

datatype phase = NoWrite | InFlight | Committed

fun invalidateAfterSuccess :: "phase \<Rightarrow> event list \<Rightarrow> bool" where
  "invalidateAfterSuccess p [] = True"
| "invalidateAfterSuccess p (EvRequest req # evs) =
     invalidateAfterSuccess (if isMutation req then InFlight else p) evs"
| "invalidateAfterSuccess p (EvResponse res # evs) =
     invalidateAfterSuccess
       (if p = InFlight then (if succeeded res then Committed else NoWrite) else p) evs"
| "invalidateAfterSuccess p (EvMutate key # evs) =
     (p = Committed \<and> invalidateAfterSuccess p evs)"
| "invalidateAfterSuccess p (ev # evs) = invalidateAfterSuccess p evs"

fun isInvalidation :: "event \<Rightarrow> bool" where
  "isInvalidation (EvMutate key) = True"
| "isInvalidation ev = False"

section \<open>The remote customer store\<close>

text \<open>
  Modelled from the spec: the Remote Customer Store, the \<open>/api/customers\<close> route, is
  not among the sources. Section 6: \<open>list\<close> returns the customers, \<open>create\<close> takes the
  email as the natural key and rejects a duplicate, \<open>delete\<close> is keyed by email and
  rejects an unknown one; a rejection carries a code and a message. A created record is
  kept after the ones already held.
\<close>

definition storeServe :: "customers remote" where
  "storeServe cs req =
     (case req of
        GET url \<Rightarrow> (Resolved \<lparr>ok = True, json = Inr (JCustomers cs)\<rparr>, cs)
      | POST url c \<Rightarrow>
          if email c \<in> set (map email cs) then
            (Resolved \<lparr>ok = False,
               json = Inr (JApiError (Some (js ''duplicate''))
                 (Some (JString (js ''Customer already exists''))))\<rparr>, cs)
          else (Resolved \<lparr>ok = True, json = Inr JNull\<rparr>, cs @ [c])
      | DELETE url e \<Rightarrow>
          if e \<in> set (map email cs) then
            (Resolved \<lparr>ok = True, json = Inr JNull\<rparr>, filter (\<lambda>c. email c \<noteq> e) cs)
          else
            (Resolved \<lparr>ok = False,
               json = Inr (JApiError (Some (js ''not-found''))
                 (Some (JString (js ''Customer not found''))))\<rparr>, cs))"

text \<open>
  Modelled from the spec: the same store behind a transport that can fail (section 7,
  \<open>TransportError\<close>). The first component says, call by call, whether the next request is
  lost; a lost request does not reach the store and \<open>fetch\<close> rejects. Past the end of the
  list every request gets through.
\<close>

definition flakyServe :: "(bool list \<times> customers) remote" where
  "flakyServe st req =
     (case st of (plan, cs) \<Rightarrow>
        (case plan of
           [] \<Rightarrow> (case storeServe cs req of (res, cs') \<Rightarrow> (res, ([], cs')))
         | lost # rest \<Rightarrow>
             if lost then (Rejected (js ''Failed to fetch''), (rest, cs))
             else (case storeServe cs req of (res, cs') \<Rightarrow> (res, (rest, cs')))))"

section \<open>Sample worlds\<close>

definition custA :: customer where
  "custA = \<lparr>firstName = js ''A'', lastName = js ''B'', businessName = Some [],
            email = js ''a@x.com''\<rparr>"

definition custC :: customer where
  "custC = \<lparr>firstName = js ''C'', lastName = js ''D'', businessName = Some [],
            email = js ''c@x.com''\<rparr>"

definition formOf :: "customer \<Rightarrow> dialog" where
  "formOf c =
     \<lparr>open_st = True, firstName_st = firstName c, lastName_st = lastName c,
      businessName_st = (case businessName c of None \<Rightarrow> [] | Some b \<Rightarrow> b),
      email_st = email c\<rparr>"

text \<open>The store holds one customer, the cache has read it, the dialog is filled in.\<close>

definition sampleWorld :: "dialog \<Rightarrow> customers world" where
  "sampleWorld f =
     \<lparr>server = [custA],
      cache = [customersKey \<mapsto>
                 \<lparr>data = Some (JCustomers [custA]), error = None, isLoading = False\<rparr>],
      form = f, log = []\<rparr>"

text \<open>A store that is down: it rejects every call with the same error body.\<close>

definition downServe :: "customers remote" where
  "downServe cs req =
     (Resolved \<lparr>ok = False,
        json = Inr (JApiError (Some (js ''unavailable''))
                 (Some (JString (js ''Store is down''))))\<rparr>, cs)"

text \<open>A first name of one space; a tab as the email.\<close>

definition blankNameForm :: dialog where
  "blankNameForm = formOf (custC\<lparr>firstName := [0x0020]\<rparr>)"

definition tabEmailForm :: dialog where
  "tabEmailForm = formOf (custC\<lparr>email := [0x0009]\<rparr>)"

text \<open>An email that is an unpaired high surrogate.\<close>

definition loneSurrogate :: jstring where
  "loneSurrogate = [0xD800]"

text \<open>
  The sample world behind the failing transport: the create gets through, the list
  requests after it are lost.
\<close>

definition flakyWorld :: "(bool list \<times> customers) world" where
  "flakyWorld =
     \<lparr>server = ([False, True, True], [custA]),
      cache = [customersKey \<mapsto>
                 \<lparr>data = Some (JCustomers [custA]), error = None, isLoading = False\<rparr>],
      form = formOf custC, log = []\<rparr>"


section \<open>Basic facts\<close>

lemma dropWhile_all_iff: "(\<forall>x\<in>set (dropWhile P s). P x) \<longleftrightarrow> (\<forall>x\<in>set s. P x)"
  by (induction s) auto

lemma trim_empty_iff: "trim s = [] \<longleftrightarrow> (\<forall>c\<in>set s. isWhiteSpace c)"
  by (simp add: trim_def dropWhile_eq_Nil_conv dropWhile_all_iff)

lemma missingField_iff:
  "missingField f \<longleftrightarrow>
     (\<forall>c\<in>set (firstName_st f). isWhiteSpace c) \<or> (\<forall>c\<in>set (lastName_st f). isWhiteSpace c) \<or>
     (\<forall>c\<in>set (email_st f). isWhiteSpace c)"
  by (simp add: missingField_def truthy_def trim_empty_iff)

lemma fetch_eq:
  "fetch srv req w =
     (fst (srv (server w) req),
      w\<lparr>server := snd (srv (server w) req),
        log := log w @ [EvRequest req, EvResponse (fst (srv (server w) req))]\<rparr>)"
  by (simp add: fetch_def emit_def Let_def split: prod.splits)

lemma fetcher_world:
  "snd (fetcher srv url w) =
     w\<lparr>server := snd (srv (server w) (GET url)),
       log := log w @ [EvRequest (GET url), EvResponse (fst (srv (server w) (GET url)))]\<rparr>"
  by (simp add: fetcher_def fetch_eq split: fetch_result.splits sum.splits)


lemma fetcher_not_ok:
  "srv (server w) (GET url) = (Resolved r, s) \<Longrightarrow> \<not> ok r \<Longrightarrow> json r = Inr d \<Longrightarrow>
   fst (fetcher srv url w) = Inl (ThrownData d)"
  by (simp add: fetcher_def fetch_eq)

lemma revalidate_log:
  "log (revalidate srv key w) =
     log w @ [EvRequest (GET key), EvResponse (fst (srv (server w) (GET key)))]"
  by (cases "fetcher srv key (w\<lparr>cache := (cache w)(key \<mapsto> (entry w key)\<lparr>isLoading := True\<rparr>)\<rparr>)")
     (use fetcher_world [of srv key "w\<lparr>cache := (cache w)(key \<mapsto> (entry w key)\<lparr>isLoading := True\<rparr>)\<rparr>"]
      in \<open>auto simp add: revalidate_def Let_def split: sum.splits\<close>)



lemma mutate_log:
  "log (mutate srv key w) =
     log w @ [EvMutate key, EvRequest (GET key), EvResponse (fst (srv (server w) (GET key)))]"
  by (simp add: mutate_def revalidate_log emit_def)



lemma handleCreate_invalid:
  "missingField (form w) \<Longrightarrow>
   handleCreate srv w = w\<lparr>log := log w @ [EvPreventDefault, EvAlert validationMessage]\<rparr>"
  by (simp add: handleCreate_def Let_def emit_def alert_def)

lemma handleCreate_failed:
  assumes "\<not> missingField (form w)"
    and "\<not> succeeded (fst (srv (server w) (POST customersKey (newCustomer (form w)))))"
  shows "handleCreate srv w =
     w\<lparr>server := snd (srv (server w) (POST customersKey (newCustomer (form w)))),
       log := log w @
         [EvPreventDefault, EvRequest (POST customersKey (newCustomer (form w))),
          EvResponse (fst (srv (server w) (POST customersKey (newCustomer (form w))))),
          EvConsoleError (ThrownError (failureText (js ''Error adding new customer'')
             (fst (srv (server w) (POST customersKey (newCustomer (form w))))))),
          EvAlert (failureText (js ''Error adding new customer'')
             (fst (srv (server w) (POST customersKey (newCustomer (form w))))))]\<rparr>"
  using assms
  by (cases "srv (server w) (POST customersKey (newCustomer (form w)))")
     (auto simp add: handleCreate_def Let_def emit_def alert_def catch_def fetch_eq
        split: fetch_result.splits sum.splits)

lemma handleCreate_ok:
  assumes "\<not> missingField (form w)"
    and "succeeded (fst (srv (server w) (POST customersKey (newCustomer (form w)))))"
  shows "handleCreate srv w =
     handleClose (mutate srv customersKey
       (w\<lparr>server := snd (srv (server w) (POST customersKey (newCustomer (form w)))),
          log := log w @
            [EvPreventDefault, EvRequest (POST customersKey (newCustomer (form w))),
             EvResponse (fst (srv (server w) (POST customersKey (newCustomer (form w)))))]\<rparr>))"
  using assms
  by (cases "srv (server w) (POST customersKey (newCustomer (form w)))")
     (auto simp add: handleCreate_def Let_def emit_def fetch_eq
        split: fetch_result.splits sum.splits)

lemma handleDelete_declined:
  "handleDelete srv False e w = w\<lparr>log := log w @ [EvConfirm (confirmMessage e) False]\<rparr>"
  by (simp add: handleDelete_def Let_def emit_def)

lemma handleDelete_malformed:
  "\<not> isWellFormed e \<Longrightarrow>
   handleDelete srv True e w =
     w\<lparr>log := log w @
         [EvConfirm (confirmMessage e) True, EvConsoleError (ThrownError uriErrorMessage),
          EvAlert uriErrorMessage]\<rparr>"
  by (simp add: handleDelete_def Let_def emit_def alert_def catch_def)

lemma handleDelete_failed:
  assumes "isWellFormed e"
    and "\<not> succeeded (fst (srv (server w) (DELETE customersKey e)))"
  shows "handleDelete srv True e w =
     w\<lparr>server := snd (srv (server w) (DELETE customersKey e)),
       log := log w @
         [EvConfirm (confirmMessage e) True, EvRequest (DELETE customersKey e),
          EvResponse (fst (srv (server w) (DELETE customersKey e))),
          EvConsoleError (ThrownError (failureText (js ''Error deleting customer'')
             (fst (srv (server w) (DELETE customersKey e))))),
          EvAlert (failureText (js ''Error deleting customer'')
             (fst (srv (server w) (DELETE customersKey e))))]\<rparr>"
  using assms
  by (cases "srv (server w) (DELETE customersKey e)")
     (auto simp add: handleDelete_def Let_def emit_def alert_def catch_def fetch_eq
        split: fetch_result.splits sum.splits)

lemma handleDelete_ok:
  assumes "isWellFormed e"
    and "succeeded (fst (srv (server w) (DELETE customersKey e)))"
  shows "handleDelete srv True e w =
     mutate srv customersKey
       (w\<lparr>server := snd (srv (server w) (DELETE customersKey e)),
          log := log w @
            [EvConfirm (confirmMessage e) True, EvRequest (DELETE customersKey e),
             EvResponse (fst (srv (server w) (DELETE customersKey e)))]\<rparr>)"
  using assms
  by (cases "srv (server w) (DELETE customersKey e)")
     (auto simp add: handleDelete_def Let_def emit_def fetch_eq
        split: fetch_result.splits sum.splits)

lemmas sample_defs =
  sampleWorld_def formOf_def custA_def custC_def storeServe_def newCustomer_def
  missingField_def truthy_def trim_def isWhiteSpace_def js_def
  isHighSurrogate_def isLowSurrogate_def

lemma handleCreate_log_ok:
  assumes "\<not> missingField (form w)"
    and "succeeded (fst (srv (server w) (POST customersKey (newCustomer (form w)))))"
  shows "log (handleCreate srv w) = log w @
      [EvPreventDefault, EvRequest (POST customersKey (newCustomer (form w))),
       EvResponse (fst (srv (server w) (POST customersKey (newCustomer (form w))))),
       EvMutate customersKey, EvRequest (GET customersKey),
       EvResponse (fst (srv (snd (srv (server w) (POST customersKey (newCustomer (form w)))))
          (GET customersKey)))]"
  using assms by (simp add: handleCreate_ok handleClose_def mutate_log)

lemma handleDelete_log_ok:
  assumes "isWellFormed e"
    and "succeeded (fst (srv (server w) (DELETE customersKey e)))"
  shows "log (handleDelete srv True e w) = log w @
      [EvConfirm (confirmMessage e) True, EvRequest (DELETE customersKey e),
       EvResponse (fst (srv (server w) (DELETE customersKey e))),
       EvMutate customersKey, EvRequest (GET customersKey),
       EvResponse (fst (srv (snd (srv (server w) (DELETE customersKey e))) (GET customersKey)))]"
  using assms by (simp add: handleDelete_ok mutate_log)

lemma create_ordering:
  "invalidateAfterSuccess NoWrite (issued w (handleCreate srv w)) \<and>
   ((\<exists>ev\<in>set (issued w (handleCreate srv w)). isInvalidation ev) \<longleftrightarrow>
      \<not> missingField (form w) \<and>
      succeeded (fst (srv (server w) (POST customersKey (newCustomer (form w))))))"
proof (cases "missingField (form w)")
  case True
  then show ?thesis
    by (simp add: handleCreate_invalid issued_def)
next
  case valid: False
  show ?thesis
  proof (cases "succeeded (fst (srv (server w) (POST customersKey (newCustomer (form w)))))")
    case True
    with valid show ?thesis
      by (simp add: issued_def handleCreate_log_ok)
  next
    case False
    with valid show ?thesis
      by (simp add: handleCreate_failed issued_def)
  qed
qed

lemma delete_ordering:
  "invalidateAfterSuccess NoWrite (issued w (handleDelete srv confirmed e w)) \<and>
   ((\<exists>ev\<in>set (issued w (handleDelete srv confirmed e w)). isInvalidation ev) \<longleftrightarrow>
      confirmed \<and> isWellFormed e \<and> succeeded (fst (srv (server w) (DELETE customersKey e))))"
proof (cases confirmed)
  case False
  then show ?thesis
    by (simp add: handleDelete_declined issued_def)
next
  case yes: True
  show ?thesis
  proof (cases "isWellFormed e")
    case False
    with yes show ?thesis
      by (simp add: handleDelete_malformed issued_def)
  next
    case wf: True
    show ?thesis
    proof (cases "succeeded (fst (srv (server w) (DELETE customersKey e)))")
      case True
      with yes wf show ?thesis
        by (simp add: issued_def handleDelete_log_ok)
    next
      case False
      with yes wf show ?thesis
        by (simp add: handleDelete_failed issued_def)
    qed
  qed
qed

lemma sample_valid: "\<not> missingField (form (sampleWorld (formOf custC)))"
  by (simp add: sample_defs)

lemma sample_post_ok:
  "succeeded (fst (storeServe (server (sampleWorld (formOf custC)))
      (POST customersKey (newCustomer (form (sampleWorld (formOf custC)))))))"
  by (simp add: sample_defs)


lemma fetcher_rejected:
  "fst (srv (server w) (GET url)) = Rejected m \<Longrightarrow> fst (fetcher srv url w) = Inl (ThrownError m)"
  by (cases "srv (server w) (GET url)") (simp add: fetcher_def fetch_eq)


lemma fetcher_unparsable:
  "srv (server w) (GET url) = (Resolved r, s) \<Longrightarrow> json r = Inl m \<Longrightarrow>
   fst (fetcher srv url w) = Inl (ThrownError m)"
  by (simp add: fetcher_def fetch_eq)




lemma message_or_cases:
  "message_or msg fallback =
     (case msg of
        JApiError c (Some (JString m)) \<Rightarrow> if m = [] then fallback else m
      | JApiError c (Some (JOther t m)) \<Rightarrow> if t then m else fallback
      | _ \<Rightarrow> fallback)"
  by (simp add: message_or_def truthy_def split: json.splits option.splits jsvalue.splits)

lemma sample_email_wellFormed: "isWellFormed (js ''nobody@x.com'')"
  by (simp add: js_def isHighSurrogate_def isLowSurrogate_def)

lemma loneSurrogate_malformed: "\<not> isWellFormed loneSurrogate"
  by (simp add: loneSurrogate_def isHighSurrogate_def)

section \<open>Invalidation follows a successful write\<close>

text \<open>
  Claim C1. In a run of \<open>handleCreate\<close> or \<open>handleDelete\<close> the invalidation
  \<open>mutate('/api/customers')\<close> comes only after the successful response to the
  handler's own POST or DELETE has been seen: never before the request, never between
  the request and its response, and never after a response that is not a success. An
  invalidation is issued exactly when the remote write was sent (the input passed the
  guard; for a delete, the user confirmed and the email could be encoded) and succeeded.
\<close>

theorem invalidate_only_after_success:
  "invalidateAfterSuccess NoWrite (issued w (handleCreate srv w)) \<and>
   invalidateAfterSuccess NoWrite (issued w (handleDelete srv confirmed e w)) \<and>
   ((\<exists>ev\<in>set (issued w (handleCreate srv w)). isInvalidation ev) \<longleftrightarrow>
      \<not> missingField (form w) \<and>
      succeeded (fst (srv (server w) (POST customersKey (newCustomer (form w)))))) \<and>
   ((\<exists>ev\<in>set (issued w (handleDelete srv confirmed e w)). isInvalidation ev) \<longleftrightarrow>
      confirmed \<and> isWellFormed e \<and>
      succeeded (fst (srv (server w) (DELETE customersKey e))))"
  using create_ordering [of w srv] delete_ordering [of w srv confirmed e] by blast

text \<open>
  On the sample world the create succeeds and invalidates; the delete of an unknown
  email is rejected by the store and does not; the delete of an email that cannot be
  encoded sends nothing and does not.
\<close>

theorem invalidate_only_after_success_witness:
  "invalidateAfterSuccess NoWrite
     (issued (sampleWorld (formOf custC)) (handleCreate storeServe (sampleWorld (formOf custC)))) \<and>
   (\<exists>ev\<in>set (issued (sampleWorld (formOf custC))
        (handleCreate storeServe (sampleWorld (formOf custC)))). isInvalidation ev) \<and>
   invalidateAfterSuccess NoWrite
     (issued (sampleWorld (formOf custC))
        (handleDelete storeServe True (js ''nobody@x.com'') (sampleWorld (formOf custC)))) \<and>
   \<not> (\<exists>ev\<in>set (issued (sampleWorld (formOf custC))
        (handleDelete storeServe True (js ''nobody@x.com'') (sampleWorld (formOf custC)))).
        isInvalidation ev) \<and>
   \<not> (\<exists>ev\<in>set (issued (sampleWorld (formOf custC))
        (handleDelete storeServe True loneSurrogate (sampleWorld (formOf custC)))).
        isInvalidation ev)"
  using invalidate_only_after_success
    [of "sampleWorld (formOf custC)" storeServe True "js ''nobody@x.com''"]
    invalidate_only_after_success
    [of "sampleWorld (formOf custC)" storeServe True loneSurrogate]
    sample_valid sample_post_ok loneSurrogate_malformed
  by (simp add: sample_defs)

section \<open>A failed mutation leaves the cache alone\<close>

text \<open>
  Claim C3. A create that fails, at the guard or because the POST did not succeed
  (rejected \<open>fetch\<close>, or a response that is not \<open>ok\<close>), leaves the whole cache as it
  was; so does a remove that is declined, whose email cannot be encoded, or whose DELETE
  did not succeed.
\<close>

theorem failure_leaves_cache:
  "((missingField (form w) \<or>
      \<not> succeeded (fst (srv (server w) (POST customersKey (newCustomer (form w)))))) \<longrightarrow>
      cache (handleCreate srv w) = cache w) \<and>
   ((\<not> confirmed \<or> \<not> isWellFormed e \<or>
      \<not> succeeded (fst (srv (server w) (DELETE customersKey e)))) \<longrightarrow>
      cache (handleDelete srv confirmed e w) = cache w)"
proof (intro conjI impI)
  assume "missingField (form w) \<or>
      \<not> succeeded (fst (srv (server w) (POST customersKey (newCustomer (form w)))))"
  then show "cache (handleCreate srv w) = cache w"
    by (cases "missingField (form w)") (simp_all add: handleCreate_invalid handleCreate_failed)
next
  assume "\<not> confirmed \<or> \<not> isWellFormed e \<or>
      \<not> succeeded (fst (srv (server w) (DELETE customersKey e)))"
  then show "cache (handleDelete srv confirmed e w) = cache w"
    by (cases confirmed; cases "isWellFormed e")
       (simp_all add: handleDelete_declined handleDelete_malformed handleDelete_failed)
qed

text \<open>
  A duplicate email, the delete of an unknown email and the delete of an email that
  cannot be encoded: all three fail and the cached collection is still the one customer.
\<close>

theorem failure_leaves_cache_witness:
  "cache (handleCreate storeServe (sampleWorld (formOf custA))) = cache (sampleWorld (formOf custA)) \<and>
   cache (handleDelete storeServe True (js ''nobody@x.com'') (sampleWorld (formOf custA))) =
     cache (sampleWorld (formOf custA)) \<and>
   cache (handleDelete storeServe True loneSurrogate (sampleWorld (formOf custA))) =
     cache (sampleWorld (formOf custA)) \<and>
   data (entry (handleDelete storeServe True (js ''nobody@x.com'') (sampleWorld (formOf custA)))
     customersKey) = Some (JCustomers [custA])"
proof -
  have a: "\<not> succeeded (fst (storeServe (server (sampleWorld (formOf custA)))
      (POST customersKey (newCustomer (form (sampleWorld (formOf custA)))))))"
    by (simp add: sample_defs)
  have b: "\<not> succeeded (fst (storeServe (server (sampleWorld (formOf custA)))
      (DELETE customersKey (js ''nobody@x.com''))))"
    by (simp add: sample_defs)
  have c: "data (entry (sampleWorld (formOf custA)) customersKey) = Some (JCustomers [custA])"
    by (simp add: entry_def sampleWorld_def)
  show ?thesis
    using failure_leaves_cache
      [of "sampleWorld (formOf custA)" storeServe True "js ''nobody@x.com''"]
      failure_leaves_cache
      [of "sampleWorld (formOf custA)" storeServe True loneSurrogate]
      a b c loneSurrogate_malformed
    by (simp add: entry_def)
qed

section \<open>The guard of create\<close>

text \<open>
  Claim C4, as stated, fails: with a first name of one space, all three fields are
  non-empty, yet the guard raises the validation alert and nothing is sent.
\<close>

theorem nonempty_blank_name_rejected:
  "firstName_st blankNameForm \<noteq> [] \<and> lastName_st blankNameForm \<noteq> [] \<and>
   email_st blankNameForm \<noteq> [] \<and>
   handleCreate storeServe (sampleWorld blankNameForm) =
     (sampleWorld blankNameForm)\<lparr>log := [EvPreventDefault, EvAlert validationMessage]\<rparr>"
proof -
  have "missingField (form (sampleWorld blankNameForm))"
    by (simp add: blankNameForm_def sample_defs)
  then have "handleCreate storeServe (sampleWorld blankNameForm) =
     (sampleWorld blankNameForm)\<lparr>log := log (sampleWorld blankNameForm) @
        [EvPreventDefault, EvAlert validationMessage]\<rparr>"
    by (rule handleCreate_invalid)
  then show ?thesis
    by (simp add: blankNameForm_def sample_defs)
qed

text \<open>
  Claim C4, amended. When the first name, the last name or the email is empty after
  trimming, \<open>handleCreate\<close> shows the validation alert and does nothing else: no request
  is sent. When all three are non-empty after trimming, the first thing the handler
  does after \<open>preventDefault\<close> is to send the POST with the four fields. The business
  name has no part in the guard.
\<close>

theorem create_validation:
  "(if trim (firstName_st (form w)) = [] \<or> trim (lastName_st (form w)) = [] \<or>
       trim (email_st (form w)) = []
    then handleCreate srv w = w\<lparr>log := log w @ [EvPreventDefault, EvAlert validationMessage]\<rparr>
    else take 2 (issued w (handleCreate srv w)) =
           [EvPreventDefault, EvRequest (POST customersKey (newCustomer (form w)))]) \<and>
   missingField ((form w)\<lparr>businessName_st := b\<rparr>) = missingField (form w)"
proof -
  have m: "missingField (form w) \<longleftrightarrow>
      trim (firstName_st (form w)) = [] \<or> trim (lastName_st (form w)) = [] \<or>
      trim (email_st (form w)) = []"
    by (simp add: missingField_def truthy_def)
  have "take 2 (issued w (handleCreate srv w)) =
           [EvPreventDefault, EvRequest (POST customersKey (newCustomer (form w)))]"
    if "\<not> missingField (form w)"
    using that
    by (cases "succeeded (fst (srv (server w) (POST customersKey (newCustomer (form w)))))")
       (simp_all add: issued_def handleCreate_log_ok handleCreate_failed)
  moreover have "missingField ((form w)\<lparr>businessName_st := b\<rparr>) = missingField (form w)"
    by (simp add: missingField_def)
  ultimately show ?thesis
    using m handleCreate_invalid [of w srv] by auto
qed

text \<open>An empty email is stopped at the guard; the filled-in form goes to the store.\<close>

theorem create_validation_witness:
  "handleCreate storeServe (sampleWorld (formOf (custC\<lparr>email := []\<rparr>))) =
     (sampleWorld (formOf (custC\<lparr>email := []\<rparr>)))\<lparr>log := [EvPreventDefault, EvAlert validationMessage]\<rparr> \<and>
   take 2 (issued (sampleWorld (formOf custC)) (handleCreate storeServe (sampleWorld (formOf custC)))) =
     [EvPreventDefault, EvRequest (POST customersKey custC)]"
  using create_validation [of "sampleWorld (formOf (custC\<lparr>email := []\<rparr>))" storeServe "[]"]
    create_validation [of "sampleWorld (formOf custC)" storeServe "[]"]
  by (simp add: sample_defs)

section \<open>White space counts as empty\<close>

text \<open>
  Claim C10. When the first name, the last name or the email consists of white space
  only (the code units that \<open>trim\<close> strips), \<open>handleCreate\<close> shows the validation alert
  and nothing else happens: no request is sent, the store and the cache are untouched.
\<close>

theorem whitespace_only_rejected:
  assumes "(\<forall>c\<in>set (firstName_st (form w)). isWhiteSpace c) \<or>
           (\<forall>c\<in>set (lastName_st (form w)). isWhiteSpace c) \<or>
           (\<forall>c\<in>set (email_st (form w)). isWhiteSpace c)"
  shows "handleCreate srv w = w\<lparr>log := log w @ [EvPreventDefault, EvAlert validationMessage]\<rparr>"
  using assms by (simp add: handleCreate_invalid missingField_iff)

text \<open>An email that is a single tab is a non-empty string and is rejected.\<close>

theorem whitespace_only_rejected_witness:
  "email_st tabEmailForm \<noteq> [] \<and>
   handleCreate storeServe (sampleWorld tabEmailForm) =
     (sampleWorld tabEmailForm)\<lparr>log := [EvPreventDefault, EvAlert validationMessage]\<rparr>"
proof -
  have "\<forall>c\<in>set (email_st (form (sampleWorld tabEmailForm))). isWhiteSpace c"
    by (simp add: tabEmailForm_def sample_defs)
  then show ?thesis
    using whitespace_only_rejected [of "sampleWorld tabEmailForm" storeServe]
    by (simp add: tabEmailForm_def sample_defs)
qed

section \<open>Create, then read\<close>




section \<open>What a failed remote call shows\<close>

text \<open>
  Claim C7, as stated, fails for a create: the store rejects a duplicate email with a
  code and a message, and what the handler shows is an \<open>Error\<close> holding the message
  only; the code is gone.
\<close>

theorem create_error_code_dropped:
  "fst (storeServe (server (sampleWorld (formOf custA)))
          (POST customersKey (newCustomer (form (sampleWorld (formOf custA)))))) =
     Resolved \<lparr>ok = False,
       json = Inr (JApiError (Some (js ''duplicate''))
                (Some (JString (js ''Customer already exists''))))\<rparr> \<and>
   surfaced (issued (sampleWorld (formOf custA))
      (handleCreate storeServe (sampleWorld (formOf custA)))) =
     [EvConsoleError (ThrownError (js ''Customer already exists'')),
      EvAlert (js ''Customer already exists'')]"
proof -
  have v: "\<not> missingField (form (sampleWorld (formOf custA)))"
    by (simp add: sample_defs)
  have r: "storeServe (server (sampleWorld (formOf custA)))
          (POST customersKey (newCustomer (form (sampleWorld (formOf custA))))) =
     (Resolved \<lparr>ok = False,
       json = Inr (JApiError (Some (js ''duplicate''))
                (Some (JString (js ''Customer already exists''))))\<rparr>,
      [custA])"
    by (simp add: sampleWorld_def formOf_def custA_def storeServe_def newCustomer_def)
  have t: "truthy (js ''Customer already exists'')"
    by (simp add: truthy_def js_def)
  from v r t show ?thesis
    by (simp add: handleCreate_failed issued_def surfaced_def message_or_def)
qed

text \<open>
  Claim C7, amended. A failed list call whose body decodes: the fetcher throws the body
  itself, code and message included; when \<open>fetch\<close> rejects or the body does not decode it
  throws that error. A failed create or delete: the handler logs and
  shows an \<open>Error\<close> and nothing else, and its text is
  \<^item> the rejection's message when \<open>fetch\<close> rejects,
  \<^item> the parser's message when the body of the reply does not decode,
  \<^item> otherwise the body's \<open>message\<close> when that is truthy (a non-empty string as it is,
    another truthy value converted to a string), and the handler's own fixed text when
    the body is \<open>null\<close> or its message is absent or falsy.
  A delete whose email cannot be encoded sends nothing and shows the \<open>URIError\<close>'s
  message. The store's code is not passed on by the two handlers.
\<close>

theorem remote_failure_surfaced:
  "(srv (server w) (GET url) = (Resolved r, s) \<and> \<not> ok r \<and> json r = Inr d \<longrightarrow>
      fst (fetcher srv url w) = Inl (ThrownData d)) \<and>
   (srv (server w) (GET url) = (Resolved r, s) \<and> json r = Inl m \<longrightarrow>
      fst (fetcher srv url w) = Inl (ThrownError m)) \<and>
   (fst (srv (server w) (GET url)) = Rejected m \<longrightarrow>
      fst (fetcher srv url w) = Inl (ThrownError m)) \<and>
   (\<not> missingField (form w) \<and>
    \<not> succeeded (fst (srv (server w) (POST customersKey (newCustomer (form w))))) \<longrightarrow>
      surfaced (issued w (handleCreate srv w)) =
        [EvConsoleError (ThrownError (failureText (js ''Error adding new customer'')
           (fst (srv (server w) (POST customersKey (newCustomer (form w))))))),
         EvAlert (failureText (js ''Error adding new customer'')
           (fst (srv (server w) (POST customersKey (newCustomer (form w))))))]) \<and>
   (isWellFormed custEmail \<and>
    \<not> succeeded (fst (srv (server w) (DELETE customersKey custEmail))) \<longrightarrow>
      surfaced (issued w (handleDelete srv True custEmail w)) =
        [EvConsoleError (ThrownError (failureText (js ''Error deleting customer'')
           (fst (srv (server w) (DELETE customersKey custEmail))))),
         EvAlert (failureText (js ''Error deleting customer'')
           (fst (srv (server w) (DELETE customersKey custEmail))))]) \<and>
   (\<not> isWellFormed custEmail \<longrightarrow>
      issued w (handleDelete srv True custEmail w) =
        [EvConfirm (confirmMessage custEmail) True,
         EvConsoleError (ThrownError uriErrorMessage), EvAlert uriErrorMessage]) \<and>
   failureText fallback (Rejected m) = m \<and>
   (json r = Inl m \<longrightarrow> failureText fallback (Resolved r) = m) \<and>
   (json r = Inr d \<longrightarrow> failureText fallback (Resolved r) = message_or d fallback) \<and>
   message_or d fallback =
     (case d of
        JApiError c (Some (JString t)) \<Rightarrow> if t = [] then fallback else t
      | JApiError c (Some (JOther b t)) \<Rightarrow> if b then t else fallback
      | _ \<Rightarrow> fallback)"
proof (intro conjI impI)
  assume "srv (server w) (GET url) = (Resolved r, s) \<and> \<not> ok r \<and> json r = Inr d"
  then show "fst (fetcher srv url w) = Inl (ThrownData d)"
    by (simp add: fetcher_not_ok)
next
  assume "srv (server w) (GET url) = (Resolved r, s) \<and> json r = Inl m"
  then show "fst (fetcher srv url w) = Inl (ThrownError m)"
    by (simp add: fetcher_unparsable)
next
  assume "fst (srv (server w) (GET url)) = Rejected m"
  then show "fst (fetcher srv url w) = Inl (ThrownError m)"
    by (rule fetcher_rejected)
next
  assume "\<not> missingField (form w) \<and>
    \<not> succeeded (fst (srv (server w) (POST customersKey (newCustomer (form w)))))"
  then show "surfaced (issued w (handleCreate srv w)) =
        [EvConsoleError (ThrownError (failureText (js ''Error adding new customer'')
           (fst (srv (server w) (POST customersKey (newCustomer (form w))))))),
         EvAlert (failureText (js ''Error adding new customer'')
           (fst (srv (server w) (POST customersKey (newCustomer (form w))))))]"
    by (simp add: handleCreate_failed issued_def surfaced_def)
next
  assume "isWellFormed custEmail \<and>
    \<not> succeeded (fst (srv (server w) (DELETE customersKey custEmail)))"
  then show "surfaced (issued w (handleDelete srv True custEmail w)) =
        [EvConsoleError (ThrownError (failureText (js ''Error deleting customer'')
           (fst (srv (server w) (DELETE customersKey custEmail))))),
         EvAlert (failureText (js ''Error deleting customer'')
           (fst (srv (server w) (DELETE customersKey custEmail))))]"
    by (simp add: handleDelete_failed issued_def surfaced_def)
next
  assume "\<not> isWellFormed custEmail"
  then show "issued w (handleDelete srv True custEmail w) =
        [EvConfirm (confirmMessage custEmail) True,
         EvConsoleError (ThrownError uriErrorMessage), EvAlert uriErrorMessage]"
    by (simp add: handleDelete_malformed issued_def)
next
  show "failureText fallback (Rejected m) = m"
    by simp
  show "failureText fallback (Resolved r) = m" if "json r = Inl m"
    using that by simp
  show "failureText fallback (Resolved r) = message_or d fallback" if "json r = Inr d"
    using that by simp
  show "message_or d fallback =
     (case d of
        JApiError c (Some (JString t)) \<Rightarrow> if t = [] then fallback else t
      | JApiError c (Some (JOther b t)) \<Rightarrow> if b then t else fallback
      | _ \<Rightarrow> fallback)"
    by (rule message_or_cases)
qed

text \<open>
  A store that is down, asked for the list, a create and a delete; a create whose
  request is lost; a delete whose reply does not decode; a delete of an email that
  cannot be encoded.
\<close>

theorem remote_failure_surfaced_witness:
  "fst (fetcher downServe customersKey (sampleWorld (formOf custC))) =
     Inl (ThrownData (JApiError (Some (js ''unavailable''))
       (Some (JString (js ''Store is down''))))) \<and>
   fst (fetcher flakyServe customersKey (flakyWorld\<lparr>server := ([True], [custA])\<rparr>)) =
     Inl (ThrownError (js ''Failed to fetch'')) \<and>
   surfaced (issued (sampleWorld (formOf custC))
      (handleCreate downServe (sampleWorld (formOf custC)))) =
     [EvConsoleError (ThrownError (js ''Store is down'')), EvAlert (js ''Store is down'')] \<and>
   surfaced (issued (sampleWorld (formOf custC))
      (handleDelete downServe True (js ''nobody@x.com'') (sampleWorld (formOf custC)))) =
     [EvConsoleError (ThrownError (js ''Store is down'')), EvAlert (js ''Store is down'')] \<and>
   surfaced (issued (flakyWorld\<lparr>server := ([True], [custA])\<rparr>)
      (handleCreate flakyServe (flakyWorld\<lparr>server := ([True], [custA])\<rparr>))) =
     [EvConsoleError (ThrownError (js ''Failed to fetch'')), EvAlert (js ''Failed to fetch'')] \<and>
   surfaced (issued (sampleWorld (formOf custC))
      (handleDelete (\<lambda>s req. (Resolved \<lparr>ok = False, json = Inl (js ''Unexpected token'')\<rparr>, s))
         True (js ''nobody@x.com'') (sampleWorld (formOf custC)))) =
     [EvConsoleError (ThrownError (js ''Unexpected token'')),
      EvAlert (js ''Unexpected token'')] \<and>
   issued (sampleWorld (formOf custC))
      (handleDelete storeServe True loneSurrogate (sampleWorld (formOf custC))) =
     [EvConfirm (confirmMessage loneSurrogate) True,
      EvConsoleError (ThrownError uriErrorMessage), EvAlert uriErrorMessage]"
proof -
  let ?w = "sampleWorld (formOf custC)"
  let ?d = "JApiError (Some (js ''unavailable'')) (Some (JString (js ''Store is down'')))"
  let ?r = "\<lparr>ok = False, json = Inr ?d\<rparr>"
  let ?g = "\<lparr>ok = False, json = Inl (js ''Unexpected token'') :: jstring + json\<rparr>"
  let ?garbled = "\<lambda>(s :: customers) (req :: request). (Resolved ?g, s)"
  let ?f = "flakyWorld\<lparr>server := ([True], [custA])\<rparr>"
  have v: "\<not> missingField (form ?w)" "\<not> missingField (form ?f)"
    by (simp_all add: flakyWorld_def sample_defs)
  have t: "js ''Store is down'' \<noteq> []"
    by (simp add: js_def)
  have d: "\<And>req. downServe (server ?w) req = (Resolved ?r, [custA])"
    by (simp add: downServe_def sampleWorld_def)
  have l: "\<And>req. fst (flakyServe (server ?f) req) = Rejected (js ''Failed to fetch'')"
    by (simp add: flakyServe_def)
  note wf = sample_email_wellFormed loneSurrogate_malformed
  show ?thesis
    using remote_failure_surfaced
        [where srv = downServe and w = ?w and url = customersKey and r = ?r and s = "[custA]"
           and d = ?d and custEmail = "js ''nobody@x.com''"]
      remote_failure_surfaced
        [where srv = flakyServe and w = ?f and url = customersKey
           and m = "js ''Failed to fetch''" and custEmail = "js ''nobody@x.com''"]
      remote_failure_surfaced
        [where srv = ?garbled and w = ?w and url = customersKey and r = ?g
           and custEmail = "js ''nobody@x.com''"]
      remote_failure_surfaced
        [where srv = storeServe and w = ?w and custEmail = loneSurrogate]
      v t d l wf
    by simp
qed

section \<open>The cached list is the store's list\<close>



section \<open>A declined delete\<close>

text \<open>
  Claim C9. When the user declines the confirmation, \<open>handleDelete\<close> only records the
  prompt: no request is sent, there is no invalidation, and the store, the cache and the
  form are what they were.
\<close>

theorem declined_delete_no_effect:
  "handleDelete srv False custEmail w =
     w\<lparr>log := log w @ [EvConfirm (confirmMessage custEmail) False]\<rparr> \<and>
   server (handleDelete srv False custEmail w) = server w \<and>
   cache (handleDelete srv False custEmail w) = cache w \<and>
   issued w (handleDelete srv False custEmail w) = [EvConfirm (confirmMessage custEmail) False]"
  by (simp add: handleDelete_declined issued_def)

text \<open>Declining on the sample world.\<close>

theorem declined_delete_no_effect_witness:
  "cache (handleDelete storeServe False (js ''a@x.com'') (sampleWorld (formOf custC))) =
     cache (sampleWorld (formOf custC)) \<and>
   server (handleDelete storeServe False (js ''a@x.com'') (sampleWorld (formOf custC))) = [custA]"
  using declined_delete_no_effect [of storeServe "js ''a@x.com''" "sampleWorld (formOf custC)"]
  by (simp add: sampleWorld_def)

end
